theory Spec2Isabelle
  imports Main "HOL-Library.AList"
begin

section \<open>Values and exceptions of the host language\<close>

text \<open>
  The configuration file is parsed by \<^verbatim>\<open>json.load\<close>, so every value the factory and the
  configuration loader handle is a Python value built from JSON: \<^verbatim>\<open>None\<close> (JSON null),
  booleans, integers, floats, strings, lists and dictionaries. A dictionary keeps its
  items in insertion order and its keys are unique; it is an association list here,
  looked up with \<open>map_of\<close>. A float is kept as the text of its literal: no operation of
  the repository computes with one.
\<close>

datatype json =
    JNull
  | JBool bool
  | JInt int
  | JFloat string
  | JStr string
  | JList "json list"
  | JObj "(string \<times> json) list"

text \<open>
  Exceptions are values. \<^verbatim>\<open>PyTestFlowException\<close> is the only class the repository
  defines (\<^verbatim>\<open>pytest_flow_exceptions.py\<close>); it carries its message and, when raised with
  \<^verbatim>\<open>raise ... from e\<close>, the exception \<open>e\<close> as its cause. The other constructors are
  the built-in and library classes the code catches or provokes; each carries the text
  that \<^verbatim>\<open>str(e)\<close> gives. \<open>OtherException\<close> stands for any further subclass of
  \<^verbatim>\<open>Exception\<close>.
\<close>

datatype py_exception =
    PyTestFlowException string "py_exception option"
  | AttributeError string
  | TypeError string
  | AssertionError string
  | FileNotFoundError string
  | WebDriverException string
  | OtherException string

fun exc_str :: "py_exception \<Rightarrow> string" where
  "exc_str (PyTestFlowException m c) = m"
| "exc_str (AttributeError m) = m"
| "exc_str (TypeError m) = m"
| "exc_str (AssertionError m) = m"
| "exc_str (FileNotFoundError m) = m"
| "exc_str (WebDriverException m) = m"
| "exc_str (OtherException m) = m"

fun type_name :: "json \<Rightarrow> string" where
  "type_name JNull = ''NoneType''"
| "type_name (JBool b) = ''bool''"
| "type_name (JInt i) = ''int''"
| "type_name (JFloat x) = ''float''"
| "type_name (JStr s) = ''str''"
| "type_name (JList xs) = ''list''"
| "type_name (JObj d) = ''dict''"

definition quoted :: "string \<Rightarrow> string" where
  "quoted s = [CHR 0x27] @ s @ [CHR 0x27]"

text \<open>The error of looking an attribute up on an object whose class does not have it.\<close>

definition no_attribute :: "json \<Rightarrow> string \<Rightarrow> py_exception" where
  "no_attribute v a =
     AttributeError (quoted (type_name v) @ '' object has no attribute '' @ quoted a)"

text \<open>
  \<^verbatim>\<open>v.get(k, dflt)\<close>: only a dictionary has a \<^verbatim>\<open>get\<close> method. \<^verbatim>\<open>v.get(k)\<close> is
  \<^verbatim>\<open>v.get(k, None)\<close>.
\<close>

fun py_get :: "json \<Rightarrow> string \<Rightarrow> json \<Rightarrow> py_exception + json" where
  "py_get (JObj d) k dflt = Inr (case map_of d k of None \<Rightarrow> dflt | Some v \<Rightarrow> v)"
| "py_get v k dflt = Inl (no_attribute v ''get'')"

text \<open>
  Truth value of an optional string argument (\<^verbatim>\<open>str | None\<close>), as \<^verbatim>\<open>if browser:\<close> tests
  it: \<^verbatim>\<open>None\<close> and the empty string are false.
\<close>

fun truthy :: "string option \<Rightarrow> bool" where
  "truthy None = False"
| "truthy (Some s) = (s \<noteq> [])"

text \<open>How an f-string prints an optional string.\<close>

fun fmt :: "string option \<Rightarrow> string" where
  "fmt None = ''None''"
| "fmt (Some s) = s"

section \<open>The configuration loader (\<^verbatim>\<open>test_config_data_loader.py\<close>)\<close>

text \<open>
  The world outside the program is a record of outcomes: what \<^verbatim>\<open>platform.system()\<close>
  returns, what opening and parsing the file at a path gives (the parsed document or
  the exception raised), and what the calls into the automation library and the
  driver managers give. Service and session handles are opaque objects, identified by
  a number.
\<close>

datatype service = Service nat

datatype driver = Driver nat

record options =
  kind :: string
  arguments :: "json list"
  capabilities :: "(string \<times> json) list"

record env =
  platform_system :: string
  read_json :: "string \<Rightarrow> py_exception + json"
  start_service :: "string \<Rightarrow> py_exception + service"
  remote_session :: "string option \<Rightarrow> options option \<Rightarrow> py_exception + driver"
  local_session :: "string \<Rightarrow> options option \<Rightarrow> service option \<Rightarrow> py_exception + driver"
  driver_quit :: "driver \<Rightarrow> py_exception option"

text \<open>
  Every call that leaves the program is recorded as an event, so that a result comes
  with the list of the external calls made to reach it, in order.
\<close>

datatype event =
    ReadConfig string
  | StartService string
  | RemoteSession "string option" "options option"
  | LocalSession string "options option" "service option"

record config =
  test_config_path :: string
  cfg_data :: json

text \<open>
  \<^verbatim>\<open>Config.__load_test_config_data\<close>: a \<^verbatim>\<open>FileNotFoundError\<close> and any other exception are
  each wrapped into a \<^verbatim>\<open>PyTestFlowException\<close> with its own message.
\<close>

definition load_test_config_data :: "env \<Rightarrow> config \<Rightarrow> (py_exception + config) \<times> event list" where
  "load_test_config_data e c =
     ((case read_json e (test_config_path c) of
         Inr d \<Rightarrow> Inr (c\<lparr>cfg_data := d\<rparr>)
       | Inl (FileNotFoundError m) \<Rightarrow>
           Inl (PyTestFlowException
                 (''Test config data file path not found. Please verify the correct path location.''
                  @ ''Path provided is: '' @ test_config_path c)
                 (Some (FileNotFoundError m)))
       | Inl x \<Rightarrow>
           Inl (PyTestFlowException
                 (''Error in opening test config data file. Original Error: '' @ exc_str x)
                 (Some x))),
      [ReadConfig (test_config_path c)])"

text \<open>\<^verbatim>\<open>Config.__init__\<close>: the default file name stands in for a missing or empty path.\<close>

definition Config :: "env \<Rightarrow> string option \<Rightarrow> (py_exception + config) \<times> event list" where
  "Config e p =
     load_test_config_data e
       \<lparr>test_config_path = (case p of None \<Rightarrow> ''test_environment.json''
                             | Some s \<Rightarrow> if s \<noteq> [] then s else ''test_environment.json''),
        cfg_data = JObj []\<rparr>"

text \<open>
  \<^verbatim>\<open>Config.get_config_data\<close>. Falling off the end of the method returns \<^verbatim>\<open>None\<close>, which
  is \<open>JNull\<close>. Under \<open>truthy\<close> the argument is a string, which \<open>the\<close> reads.
\<close>

definition get_config_data :: "config \<Rightarrow> string option \<Rightarrow> string option \<Rightarrow> py_exception + json" where
  "get_config_data c browser device =
     (if truthy browser then
        (case py_get (cfg_data c) ''browsers'' JNull of
           Inl x \<Rightarrow> Inl x
         | Inr bs \<Rightarrow> py_get bs (the browser) (JObj []))
      else if truthy device then
        (case py_get (cfg_data c) ''devices'' JNull of
           Inl x \<Rightarrow> Inl x
         | Inr ds \<Rightarrow> py_get ds (the device) (JObj []))
      else Inr JNull)"

section \<open>The session factory (\<^verbatim>\<open>webdriver_factory.py\<close>)\<close>

record factory =
  browser :: "string option"
  remote :: bool
  grid_url :: "string option"
  driver :: "driver option"
  service :: "service option"
  config_data :: json

definition SUPPORTED_BROWSERS :: "string list" where
  "SUPPORTED_BROWSERS = [''chrome'', ''edge'', ''firefox'', ''safari'']"

text \<open>\<^verbatim>\<open>sep.join(xs)\<close>.\<close>

fun join :: "string \<Rightarrow> string list \<Rightarrow> string" where
  "join sep [] = []"
| "join sep [x] = x"
| "join sep (x # y # ys) = x @ sep @ join sep (y # ys)"

definition check_platform_compatibility :: "env \<Rightarrow> factory \<Rightarrow> py_exception + unit" where
  "check_platform_compatibility e f =
     (if platform_system e = ''Windows'' \<and> browser f = Some ''safari''
      then Inl (PyTestFlowException (fmt (browser f) @ '' is not supported on Windows.'') None)
      else Inr ())"

definition check_browser_availability :: "factory \<Rightarrow> py_exception + unit" where
  "check_browser_availability f =
     (if browser f \<notin> set (map Some SUPPORTED_BROWSERS)
      then Inl (PyTestFlowException
                 (''Unsupported Browser: '' @ fmt (browser f) @ ''. ''
                  @ ''Supported browsers are '' @ join '','' SUPPORTED_BROWSERS)
                 None)
      else Inr ())"

subsection \<open>Options\<close>

text \<open>
  The options classes belong to the automation library. An options object is modelled
  by what the factory puts into it: the class chosen (named by its browser), the
  arguments passed to \<^verbatim>\<open>add_argument\<close> in call order, and the capabilities stored by
  \<^verbatim>\<open>set_capability\<close>, a dictionary (assigning to a name that is there replaces its value
  in place, a new name goes to the end). The defaults the library puts into a fresh
  object are not represented, and neither is any check the library makes on what it is
  given: the calls are recorded as they are made. The variable \<^verbatim>\<open>options\<close> of \<^verbatim>\<open>__get_options\<close> is
  \<^verbatim>\<open>Options | None\<close>: a method call on \<^verbatim>\<open>None\<close> raises \<^verbatim>\<open>AttributeError\<close>.
\<close>

definition fresh_options :: "string \<Rightarrow> options" where
  "fresh_options b = \<lparr>kind = b, arguments = [], capabilities = []\<rparr>"

fun add_argument :: "options option \<Rightarrow> json \<Rightarrow> py_exception + options option" where
  "add_argument None a = Inl (no_attribute JNull ''add_argument'')"
| "add_argument (Some opts) a = Inr (Some (opts\<lparr>arguments := arguments opts @ [a]\<rparr>))"

fun set_capability :: "options option \<Rightarrow> string \<times> json \<Rightarrow> py_exception + options option" where
  "set_capability None (k, v) = Inl (no_attribute JNull ''set_capability'')"
| "set_capability (Some opts) (k, v) =
     Inr (Some (opts\<lparr>capabilities := AList.update k v (capabilities opts)\<rparr>))"

text \<open>The two \<^verbatim>\<open>for\<close> loops of \<^verbatim>\<open>__get_options\<close>; an exception ends the loop.\<close>

fun add_arguments :: "options option \<Rightarrow> json list \<Rightarrow> py_exception + options option" where
  "add_arguments opts [] = Inr opts"
| "add_arguments opts (a # as) =
     (case add_argument opts a of Inl x \<Rightarrow> Inl x | Inr opts' \<Rightarrow> add_arguments opts' as)"

fun set_capabilities :: "options option \<Rightarrow> (string \<times> json) list \<Rightarrow> py_exception + options option" where
  "set_capabilities opts [] = Inr opts"
| "set_capabilities opts (kv # kvs) =
     (case set_capability opts kv of Inl x \<Rightarrow> Inl x | Inr opts' \<Rightarrow> set_capabilities opts' kvs)"

text \<open>
  What a \<^verbatim>\<open>for\<close> loop iterates over: the elements of a list, the characters of a string
  (each a string of length one), the keys of a dictionary; other values are not
  iterable.
\<close>

fun py_iter :: "json \<Rightarrow> py_exception + json list" where
  "py_iter (JList xs) = Inr xs"
| "py_iter (JStr s) = Inr (map (\<lambda>c. JStr [c]) s)"
| "py_iter (JObj d) = Inr (map (\<lambda>kv. JStr (fst kv)) d)"
| "py_iter v = Inl (TypeError (quoted (type_name v) @ '' object is not iterable''))"

fun py_items :: "json \<Rightarrow> py_exception + (string \<times> json) list" where
  "py_items (JObj d) = Inr d"
| "py_items v = Inl (no_attribute v ''items'')"

definition get_options :: "factory \<Rightarrow> py_exception + options option" where
  "get_options f =
     (case py_get (config_data f) ''args'' (JList []) of
        Inl x \<Rightarrow> Inl x
      | Inr args \<Rightarrow>
          (let opts =
                 (if browser f = Some ''chrome'' then Some (fresh_options ''chrome'')
                  else if browser f = Some ''firefox'' then Some (fresh_options ''firefox'')
                  else if browser f = Some ''edge'' then Some (fresh_options ''edge'')
                  else if browser f = Some ''safari'' then Some (fresh_options ''safari'')
                  else None)
           in case py_iter args of
                Inl x \<Rightarrow> Inl x
              | Inr as \<Rightarrow>
                  (case add_arguments opts as of
                     Inl x \<Rightarrow> Inl x
                   | Inr opts1 \<Rightarrow>
                       (case py_items (config_data f) of
                          Inl x \<Rightarrow> Inl x
                        | Inr kvs \<Rightarrow> set_capabilities opts1 kvs))))"

subsection \<open>Service and session\<close>

text \<open>
  One branch of \<^verbatim>\<open>__init_service\<close>: the call of the driver manager and of the service
  class, inside the \<^verbatim>\<open>try\<close> whose handler wraps any exception.
\<close>

definition service_for :: "env \<Rightarrow> factory \<Rightarrow> string \<Rightarrow> (py_exception + factory) \<times> event list" where
  "service_for e f b =
     ((case start_service e b of
         Inl x \<Rightarrow>
           Inl (PyTestFlowException
                 (''An Error encountered while initializing service for '' @ fmt (browser f)
                  @ '' browser.'' @ ''Original Exception is: '' @ exc_str x)
                 (Some x))
       | Inr s \<Rightarrow> Inr (f\<lparr>service := Some s\<rparr>)),
      [StartService b])"

definition init_service :: "env \<Rightarrow> factory \<Rightarrow> (py_exception + factory) \<times> event list" where
  "init_service e f =
     (if browser f = Some ''chrome'' then service_for e f ''chrome''
      else if browser f = Some ''firefox'' then service_for e f ''firefox''
      else if browser f = Some ''edge'' then service_for e f ''edge''
      else if browser f = Some ''safari'' then service_for e f ''safari''
      else (Inr f, []))"

definition create_remote_driver :: "env \<Rightarrow> factory \<Rightarrow> (py_exception + factory) \<times> event list" where
  "create_remote_driver e f =
     (case get_options f of
        Inl x \<Rightarrow> (Inl x, [])
      | Inr opts \<Rightarrow>
          (case init_service e f of
             (Inl x, tr) \<Rightarrow> (Inl x, tr)
           | (Inr f1, tr) \<Rightarrow>
               ((case remote_session e (grid_url f1) opts of
                   Inr d \<Rightarrow> Inr (f1\<lparr>driver := Some d\<rparr>)
                 | Inl (WebDriverException m) \<Rightarrow>
                     Inl (PyTestFlowException
                           (''WebDriverException Encountered while creating remote webdriver for ''
                            @ fmt (browser f1) @ '' Original Error: '' @ m)
                           (Some (WebDriverException m)))
                 | Inl x \<Rightarrow>
                     Inl (PyTestFlowException
                           (''An Exception is encountered while creating remote webdriver for ''
                            @ fmt (browser f1) @ ''Original Error: '' @ exc_str x)
                           (Some x))),
                tr @ [RemoteSession (grid_url f1) opts])))"

text \<open>
  One branch of \<^verbatim>\<open>__create_local_driver\<close>: the call of the browser's session class. No
  handler surrounds it, so its exception leaves the method as it is.
\<close>

definition local_for ::
  "env \<Rightarrow> factory \<Rightarrow> string \<Rightarrow> options option \<Rightarrow> (py_exception + factory) \<times> event list" where
  "local_for e f b opts =
     ((case local_session e b opts (service f) of
         Inl x \<Rightarrow> Inl x
       | Inr d \<Rightarrow> Inr (f\<lparr>driver := Some d\<rparr>)),
      [LocalSession b opts (service f)])"

definition create_local_driver :: "env \<Rightarrow> factory \<Rightarrow> (py_exception + factory) \<times> event list" where
  "create_local_driver e f =
     (case get_options f of
        Inl x \<Rightarrow> (Inl x, [])
      | Inr opts \<Rightarrow>
          (case init_service e f of
             (Inl x, tr) \<Rightarrow> (Inl x, tr)
           | (Inr f1, tr) \<Rightarrow>
               (case (if browser f1 = Some ''chrome'' then local_for e f1 ''chrome'' opts
                      else if browser f1 = Some ''edge'' then local_for e f1 ''edge'' opts
                      else if browser f1 = Some ''firefox'' then local_for e f1 ''firefox'' opts
                      else if browser f1 = Some ''safari'' then local_for e f1 ''safari'' opts
                      else (Inr f1, [])) of
                  (r, tr') \<Rightarrow> (r, tr @ tr'))))"

text \<open>
  \<^verbatim>\<open>__set_webdriver\<close>. Both methods store the handle in the factory and return it, and
  the assignment here stores the returned handle again.
\<close>

definition set_webdriver :: "env \<Rightarrow> factory \<Rightarrow> (py_exception + factory) \<times> event list" where
  "set_webdriver e f =
     (if remote f \<and> truthy (grid_url f) then create_remote_driver e f
      else create_local_driver e f)"

text \<open>Lines 42 to 47 of \<^verbatim>\<open>__init__\<close>: the fields as the constructor first sets them.\<close>

definition new_factory :: "string option \<Rightarrow> bool \<Rightarrow> string option \<Rightarrow> factory" where
  "new_factory b r g =
     \<lparr>browser = b, remote = r, grid_url = g, driver = None, service = None,
      config_data = JObj []\<rparr>"

text \<open>
  Lines 47 to 49 of \<^verbatim>\<open>__init__\<close>: the configuration of the factory is the empty
  dictionary, or, when a path is given, what the loader returns for the browser.
\<close>

definition resolve_config ::
  "env \<Rightarrow> factory \<Rightarrow> string option \<Rightarrow> (py_exception + factory) \<times> event list" where
  "resolve_config e f p =
     (if truthy p then
        (case Config e p of
           (Inl x, tr) \<Rightarrow> (Inl x, tr)
         | (Inr c, tr) \<Rightarrow>
             (case get_config_data c (browser f) None of
                Inl x \<Rightarrow> (Inl x, tr)
              | Inr d \<Rightarrow> (Inr (f\<lparr>config_data := d\<rparr>), tr)))
      else (Inr f, []))"

text \<open>
  \<^verbatim>\<open>WebDriverFactory.__init__\<close>. An exception leaves the constructor and no factory is
  returned; the events are those of the calls made until then.
\<close>

definition WebDriverFactory ::
  "env \<Rightarrow> string option \<Rightarrow> bool \<Rightarrow> string option \<Rightarrow> string option
   \<Rightarrow> (py_exception + factory) \<times> event list" where
  "WebDriverFactory e b r g p =
     (case resolve_config e (new_factory b r g) p of
        (Inl x, tr) \<Rightarrow> (Inl x, tr)
      | (Inr f, tr) \<Rightarrow>
          (case check_platform_compatibility e f of
             Inl x \<Rightarrow> (Inl x, tr)
           | Inr u \<Rightarrow>
               (case check_browser_availability f of
                  Inl x \<Rightarrow> (Inl x, tr)
                | Inr u' \<Rightarrow>
                    (case set_webdriver e f of (res, tr') \<Rightarrow> (res, tr @ tr')))))"

definition get_webdriver :: "factory \<Rightarrow> driver option" where
  "get_webdriver f = driver f"

text \<open>
  \<^verbatim>\<open>quit_webdriver\<close>: the \<^verbatim>\<open>quit\<close> call on the stored handle, which is \<^verbatim>\<open>None\<close> when no
  session was stored, inside a \<^verbatim>\<open>try\<close> whose handler wraps any exception.
\<close>

definition quit_webdriver :: "env \<Rightarrow> factory \<Rightarrow> py_exception + unit" where
  "quit_webdriver e f =
     (case (case driver f of
              None \<Rightarrow> Some (no_attribute JNull ''quit'')
            | Some d \<Rightarrow> driver_quit e d) of
        Some x \<Rightarrow>
          Inl (PyTestFlowException
                (''Error in closing WebDriver. Original Error: '' @ exc_str x) (Some x))
      | None \<Rightarrow> Inr ())"

text \<open>The kinds of event: reading the configuration file, and creating a session.\<close>

fun is_config_read :: "event \<Rightarrow> bool" where
  "is_config_read (ReadConfig q) = True"
| "is_config_read ev = False"

fun is_session :: "event \<Rightarrow> bool" where
  "is_session (RemoteSession u opts) = True"
| "is_session (LocalSession b opts s) = True"
| "is_session ev = False"

section \<open>The assertion helpers (\<^verbatim>\<open>assertion.py\<close>)\<close>

text \<open>\<^verbatim>\<open>hard_assert\<close> is the statement \<^verbatim>\<open>assert condition, msg\<close>.\<close>

definition hard_assert :: "bool \<Rightarrow> string \<Rightarrow> py_exception + unit" where
  "hard_assert condition msg = (if condition then Inr () else Inl (AssertionError msg))"

text \<open>
  Modelled from the spec: \<^verbatim>\<open>check.is_true\<close> of the assertion-recording utility
  \<^verbatim>\<open>pytest_check\<close>, which is not part of the sources. By the specification and the
  docstring of \<^verbatim>\<open>soft_assert\<close>, a false condition records a failure tagged with the
  message and execution continues; a true condition has no observable effect. The
  state of the utility is the list of the recorded failures.
\<close>

definition check_is_true :: "bool \<Rightarrow> string \<Rightarrow> string list \<Rightarrow> (py_exception + unit) \<times> string list" where
  "check_is_true x msg recorded = (Inr (), if x then recorded else recorded @ [msg])"

text \<open>\<^verbatim>\<open>soft_assert\<close> passes its arguments on to \<^verbatim>\<open>check.is_true\<close>.\<close>

definition soft_assert :: "bool \<Rightarrow> string \<Rightarrow> string list \<Rightarrow> (py_exception + unit) \<times> string list" where
  "soft_assert condition msg recorded = check_is_true condition msg recorded"

section \<open>Example hosts and documents\<close>

text \<open>
  A host is given by its platform name and its files; on the hosts below every call
  into the libraries succeeds. \<open>no_files\<close> is a file system where no path resolves,
  \<open>one_file\<close> one that holds a single document, \<open>unparsable_file\<close> one whose single
  file is not a JSON text (the parser raises \<^verbatim>\<open>JSONDecodeError\<close>, one of the further
  exception classes).
\<close>

definition no_files :: "string \<Rightarrow> py_exception + json" where
  "no_files q = Inl (FileNotFoundError (''[Errno 2] No such file or directory: '' @ quoted q))"

definition one_file :: "string \<Rightarrow> json \<Rightarrow> string \<Rightarrow> py_exception + json" where
  "one_file q doc q' = (if q' = q then Inr doc else no_files q')"

definition unparsable_file :: "string \<Rightarrow> string \<Rightarrow> py_exception + json" where
  "unparsable_file q q' =
     (if q' = q then Inl (OtherException ''Expecting value: line 1 column 1 (char 0)'')
      else no_files q')"

definition host :: "string \<Rightarrow> (string \<Rightarrow> py_exception + json) \<Rightarrow> env" where
  "host os files =
     \<lparr>platform_system = os, read_json = files,
      start_service = (\<lambda>b. Inr (Service 1)),
      remote_session = (\<lambda>u opts. Inr (Driver 2)),
      local_session = (\<lambda>b opts s. Inr (Driver 1)),
      driver_quit = (\<lambda>d. None)\<rparr>"

text \<open>The section of the specification's example: two arguments and one capability.\<close>

definition example_section :: json where
  "example_section =
     JObj [(''args'', JList [JStr ''--headless'', JStr ''--no-sandbox'']),
           (''pageLoadStrategy'', JStr ''eager'')]"

definition example_document :: json where
  "example_document =
     JObj [(''browsers'', JObj [(''chrome'', example_section), (''safari'', JObj [])]),
           (''devices'', JObj [(''pixel'', JObj [(''platformName'', JStr ''Android'')])])]"

text \<open>A document whose sections are filed under the empty name.\<close>

definition unnamed_document :: json where
  "unnamed_document =
     JObj [(''browsers'', JObj [([], JObj [(''pageLoadStrategy'', JStr ''eager'')])]),
           (''devices'', JObj [([], JObj [(''platformName'', JStr ''Android'')]),
                               (''pixel'', JObj [(''platformName'', JStr ''Android'')])])]"

text \<open>A document with no \<^verbatim>\<open>browsers\<close> key, and one with no \<^verbatim>\<open>devices\<close> key.\<close>

definition devices_only_document :: json where
  "devices_only_document =
     JObj [(''devices'', JObj [(''pixel'', JObj [(''platformName'', JStr ''Android'')])])]"

definition browsers_only_document :: json where
  "browsers_only_document = JObj [(''browsers'', JObj [(''chrome'', example_section)])]"

definition loaded :: "json \<Rightarrow> config" where
  "loaded doc = \<lparr>test_config_path = ''test_environment.json'', cfg_data = doc\<rparr>"

section \<open>Auxiliary facts\<close>

lemmas host_defs = host_def no_files_def one_file_def unparsable_file_def quoted_def
  no_attribute_def
  example_document_def example_section_def devices_only_document_def
  browsers_only_document_def unnamed_document_def loaded_def

lemmas factory_defs = WebDriverFactory_def new_factory_def resolve_config_def Config_def
  load_test_config_data_def get_config_data_def check_platform_compatibility_def
  check_browser_availability_def SUPPORTED_BROWSERS_def set_webdriver_def
  create_remote_driver_def create_local_driver_def init_service_def service_for_def
  local_for_def get_options_def fresh_options_def

text \<open>The configuration step reads the file and does nothing else outside the program.\<close>

lemma resolve_config_events:
  "\<forall>ev \<in> set (snd (resolve_config e f p)). is_config_read ev"
  by (auto simp: resolve_config_def Config_def load_test_config_data_def
           split: prod.splits sum.splits)

lemma resolve_config_no_path:
  "\<not> truthy p \<Longrightarrow> resolve_config e f p = (Inr f, [])"
  by (simp add: resolve_config_def)

lemma resolve_config_fields:
  assumes "resolve_config e f p = (Inr f', tr)"
  shows "browser f' = browser f \<and> remote f' = remote f \<and> grid_url f' = grid_url f
         \<and> driver f' = driver f \<and> service f' = service f"
  using assms
  by (auto simp: resolve_config_def split: if_splits prod.splits sum.splits)

lemma supported_iff:
  "(b \<in> set (map Some SUPPORTED_BROWSERS)) =
     (b = Some ''chrome'' \<or> b = Some ''edge'' \<or> b = Some ''firefox'' \<or> b = Some ''safari'')"
  by (auto simp: SUPPORTED_BROWSERS_def)

lemma join_supported: "join '','' SUPPORTED_BROWSERS = ''chrome,edge,firefox,safari''"
  by (simp add: SUPPORTED_BROWSERS_def)

text \<open>On an options object that exists, neither loop of \<^verbatim>\<open>__get_options\<close> fails.\<close>

lemma add_arguments_Some: "\<exists>opts'. add_arguments (Some opts) as = Inr (Some opts')"
  by (induction as arbitrary: opts) simp_all

lemma set_capabilities_Some: "\<exists>opts'. set_capabilities (Some opts) kvs = Inr (Some opts')"
proof (induction kvs arbitrary: opts)
  case Nil
  show ?case by simp
next
  case (Cons kv kvs)
  obtain k v where "kv = (k, v)" by (cases kv)
  then show ?case using Cons.IH by simp
qed

lemma get_options_supported:
  assumes "browser f \<in> set (map Some SUPPORTED_BROWSERS)" and "get_options f = Inr res"
  shows "\<exists>opts. res = Some opts"
proof -
  obtain o0 where o0: "(if browser f = Some ''chrome'' then Some (fresh_options ''chrome'')
                  else if browser f = Some ''firefox'' then Some (fresh_options ''firefox'')
                  else if browser f = Some ''edge'' then Some (fresh_options ''edge'')
                  else if browser f = Some ''safari'' then Some (fresh_options ''safari'')
                  else None) = Some o0"
    using assms(1) unfolding supported_iff by auto
  from assms(2) obtain args as o1 kvs where
    "py_iter args = Inr as" and a: "add_arguments (Some o0) as = Inr o1"
    and s: "set_capabilities o1 kvs = Inr res"
    unfolding get_options_def o0 Let_def by (auto split: sum.splits)
  from a add_arguments_Some [of o0 as] obtain o1' where "o1 = Some o1'" by auto
  with s set_capabilities_Some [of o1' kvs] show ?thesis by auto
qed

lemma get_options_handles [simp]:
  "get_options (f\<lparr>service := s\<rparr>) = get_options f"
  "get_options (f\<lparr>driver := d\<rparr>) = get_options f"
  by (simp_all add: get_options_def Let_def split: sum.splits)

lemma init_service_supported:
  assumes "browser f = Some bn" and "bn \<in> set SUPPORTED_BROWSERS"
  shows "init_service e f = service_for e f bn"
  using assms by (auto simp: init_service_def SUPPORTED_BROWSERS_def)

lemma local_supported:
  assumes "browser f = Some bn" and "bn \<in> set SUPPORTED_BROWSERS"
  shows "(if browser f = Some ''chrome'' then local_for e f ''chrome'' opts
          else if browser f = Some ''edge'' then local_for e f ''edge'' opts
          else if browser f = Some ''firefox'' then local_for e f ''firefox'' opts
          else if browser f = Some ''safari'' then local_for e f ''safari'' opts
          else (Inr f, [])) = local_for e f bn opts"
  using assms by (auto simp: SUPPORTED_BROWSERS_def)

text \<open>
  What a successful \<^verbatim>\<open>__set_webdriver\<close> has done for a supported browser: the service
  was started, then one session was created, remote or local.
\<close>

lemma set_webdriver_ok:
  assumes sw: "set_webdriver e f1 = (Inr f, tr)"
    and bn: "browser f1 = Some bn" "bn \<in> set SUPPORTED_BROWSERS"
  shows "\<exists>opts s d. get_options f1 = Inr (Some opts) \<and> start_service e bn = Inr s
           \<and> f = f1\<lparr>service := Some s, driver := Some d\<rparr>
           \<and> (if remote f1 \<and> truthy (grid_url f1)
               then remote_session e (grid_url f1) (Some opts)
               else local_session e bn (Some opts) (Some s)) = Inr d
           \<and> tr = [StartService bn,
                   if remote f1 \<and> truthy (grid_url f1)
                   then RemoteSession (grid_url f1) (Some opts)
                   else LocalSession bn (Some opts) (Some s)]"
proof -
  have sup: "browser f1 \<in> set (map Some SUPPORTED_BROWSERS)" using bn by simp
  obtain res where go: "get_options f1 = Inr res"
    using sw by (cases "get_options f1")
      (auto simp: set_webdriver_def create_remote_driver_def create_local_driver_def
            split: if_splits)
  then obtain opts where res: "res = Some opts"
    using get_options_supported [OF sup] by blast
  have sv: "init_service e f1 = service_for e f1 bn"
    using init_service_supported [OF bn] .
  obtain s where s: "start_service e bn = Inr s"
    using sw go sv
    by (cases "start_service e bn")
      (auto simp: set_webdriver_def create_remote_driver_def create_local_driver_def
            service_for_def split: if_splits)
  let ?f2 = "f1\<lparr>service := Some s\<rparr>"
  have sf: "service_for e f1 bn = (Inr ?f2, [StartService bn])"
    using s by (simp add: service_for_def)
  have b2: "browser ?f2 = Some bn" using bn by simp
  show ?thesis
  proof (cases "remote f1 \<and> truthy (grid_url f1)")
    case True
    then have "create_remote_driver e f1 = (Inr f, tr)"
      using sw by (simp add: set_webdriver_def)
    then show ?thesis
      using True go res sv sf s
      by (auto simp: create_remote_driver_def split: sum.splits py_exception.splits)
  next
    case False
    then have "create_local_driver e f1 = (Inr f, tr)"
      using sw by (auto simp: set_webdriver_def split: if_splits)
    then have "local_for e ?f2 bn (Some opts) = (Inr f, tl tr) \<and> tr = StartService bn # tl tr"
      using go res sv sf local_supported [OF b2 bn(2), of e "Some opts"]
      by (auto simp: create_local_driver_def split: prod.splits)
    then show ?thesis
      using False go res s
      by (cases tr) (auto simp: local_for_def split: sum.splits)
  qed
qed

section \<open>Options and capabilities\<close>

text \<open>
  Claim C1 says that the resolved options object gets the entries of \<^verbatim>\<open>args\<close> as launch
  arguments and the pairs other than \<^verbatim>\<open>args\<close> as capabilities, so that no capability named
  \<^verbatim>\<open>args\<close> is ever set. The docstring of \<^verbatim>\<open>__get_options\<close> says the same (capabilities
  come from the other key-value pairs), but the second loop runs over all items of the
  configuration: on the specification's own example the two arguments are appended and
  two capabilities are set, \<^verbatim>\<open>args\<close> and \<^verbatim>\<open>pageLoadStrategy\<close>.
\<close>

theorem get_options_sets_args_capability:
  "get_options ((new_factory (Some ''chrome'') False None)\<lparr>config_data := example_section\<rparr>) =
     Inr (Some \<lparr>kind = ''chrome'',
                arguments = [JStr ''--headless'', JStr ''--no-sandbox''],
                capabilities =
                  [(''args'', JList [JStr ''--headless'', JStr ''--no-sandbox'']),
                   (''pageLoadStrategy'', JStr ''eager'')]\<rparr>)"
  by (simp add: get_options_def new_factory_def example_section_def fresh_options_def)

section \<open>Order of the constructor's steps\<close>

text \<open>
  Claim C2, as amended: the constructor first resolves the configuration (through the
  loader when a non-empty path is given, else the empty configuration, with no file
  read), then checks the platform, then checks the browser name, and only then creates
  the session. A failure of an earlier step is the failure of the constructor, and the
  only external calls made by then are those of the steps before: a failure of the
  configuration step or of either check leaves nothing but the reading of the file.
\<close>

theorem construction_order:
  "(\<forall>x tr. resolve_config e (new_factory b r g) p = (Inl x, tr) \<longrightarrow>
       WebDriverFactory e b r g p = (Inl x, tr))
   \<and> (\<forall>f tr x. resolve_config e (new_factory b r g) p = (Inr f, tr)
         \<and> check_platform_compatibility e f = Inl x \<longrightarrow>
       WebDriverFactory e b r g p = (Inl x, tr))
   \<and> (\<forall>f tr x. resolve_config e (new_factory b r g) p = (Inr f, tr)
         \<and> check_platform_compatibility e f = Inr ()
         \<and> check_browser_availability f = Inl x \<longrightarrow>
       WebDriverFactory e b r g p = (Inl x, tr))
   \<and> (\<forall>f tr. resolve_config e (new_factory b r g) p = (Inr f, tr)
         \<and> check_platform_compatibility e f = Inr ()
         \<and> check_browser_availability f = Inr () \<longrightarrow>
       WebDriverFactory e b r g p = (fst (set_webdriver e f), tr @ snd (set_webdriver e f)))
   \<and> (\<forall>ev \<in> set (snd (resolve_config e (new_factory b r g) p)). is_config_read ev)
   \<and> (\<not> truthy p \<longrightarrow> resolve_config e (new_factory b r g) p = (Inr (new_factory b r g), []))"
  by (simp add: WebDriverFactory_def resolve_config_events resolve_config_no_path
           split: prod.splits)

text \<open>
  The four stages on concrete hosts: the platform check failing after the file was read,
  the browser check failing after the file was read, the configuration step failing
  first, and a construction that goes through.
\<close>

theorem construction_order_witness:
  "WebDriverFactory (host ''Windows'' (one_file ''cfg.json'' example_document))
      (Some ''safari'') False None (Some ''cfg.json'')
     = (Inl (PyTestFlowException ''safari is not supported on Windows.'' None),
        [ReadConfig ''cfg.json''])
   \<and> WebDriverFactory (host ''Linux'' (one_file ''cfg.json'' example_document))
      (Some ''opera'') False None (Some ''cfg.json'')
     = (Inl (PyTestFlowException
              ''Unsupported Browser: opera. Supported browsers are chrome,edge,firefox,safari''
              None),
        [ReadConfig ''cfg.json''])
   \<and> fst (WebDriverFactory (host ''Linux'' no_files) (Some ''opera'') False None (Some ''cfg.json''))
     = fst (resolve_config (host ''Linux'' no_files) (new_factory (Some ''opera'') False None)
             (Some ''cfg.json''))
   \<and> snd (WebDriverFactory (host ''Linux'' (one_file ''cfg.json'' example_document))
      (Some ''safari'') False None (Some ''cfg.json''))
     = [ReadConfig ''cfg.json'', StartService ''safari'',
        LocalSession ''safari'' (Some \<lparr>kind = ''safari'', arguments = [], capabilities = []\<rparr>)
          (Some (Service 1))]"
proof -
  let ?doc = "one_file ''cfg.json'' example_document"
  let ?safari = "(new_factory (Some ''safari'') False None)\<lparr>config_data := JObj []\<rparr>"
  let ?opera = "(new_factory (Some ''opera'') False None)\<lparr>config_data := JObj []\<rparr>"
  have r1: "resolve_config (host ''Windows'' ?doc) (new_factory (Some ''safari'') False None)
              (Some ''cfg.json'') = (Inr ?safari, [ReadConfig ''cfg.json''])"
    by (simp add: factory_defs host_defs)
  have p1: "check_platform_compatibility (host ''Windows'' ?doc) ?safari
              = Inl (PyTestFlowException ''safari is not supported on Windows.'' None)"
    by (simp add: factory_defs host_defs)
  have r2: "resolve_config (host ''Linux'' ?doc) (new_factory (Some ''opera'') False None)
              (Some ''cfg.json'') = (Inr ?opera, [ReadConfig ''cfg.json''])"
    by (simp add: factory_defs host_defs)
  have p2: "check_platform_compatibility (host ''Linux'' ?doc) ?opera = Inr ()"
    by (simp add: factory_defs host_defs)
  have b2: "check_browser_availability ?opera
              = Inl (PyTestFlowException
                 ''Unsupported Browser: opera. Supported browsers are chrome,edge,firefox,safari''
                 None)"
    by (simp add: factory_defs host_defs)
  obtain x tr where r3: "resolve_config (host ''Linux'' no_files)
              (new_factory (Some ''opera'') False None) (Some ''cfg.json'') = (Inl x, tr)"
    by (simp add: factory_defs host_defs)
  have r4: "resolve_config (host ''Linux'' ?doc) (new_factory (Some ''safari'') False None)
              (Some ''cfg.json'') = (Inr ?safari, [ReadConfig ''cfg.json''])"
    by (simp add: factory_defs host_defs)
  have p4: "check_platform_compatibility (host ''Linux'' ?doc) ?safari = Inr ()"
    by (simp add: factory_defs host_defs)
  have b4: "check_browser_availability ?safari = Inr ()"
    by (simp add: factory_defs host_defs)
  have s4: "set_webdriver (host ''Linux'' ?doc) ?safari
      = (Inr (?safari\<lparr>service := Some (Service 1), driver := Some (Driver 1)\<rparr>),
         [StartService ''safari'',
          LocalSession ''safari'' (Some \<lparr>kind = ''safari'', arguments = [], capabilities = []\<rparr>)
            (Some (Service 1))])"
    by (simp add: factory_defs host_defs)
  note t1 = construction_order
    [of "host ''Windows'' ?doc" "Some ''safari''" False None "Some ''cfg.json''"]
  note t2 = construction_order
    [of "host ''Linux'' ?doc" "Some ''opera''" False None "Some ''cfg.json''"]
  note t3 = construction_order
    [of "host ''Linux'' no_files" "Some ''opera''" False None "Some ''cfg.json''"]
  note t4 = construction_order
    [of "host ''Linux'' ?doc" "Some ''safari''" False None "Some ''cfg.json''"]
  have "WebDriverFactory (host ''Windows'' ?doc) (Some ''safari'') False None (Some ''cfg.json'')
     = (Inl (PyTestFlowException ''safari is not supported on Windows.'' None),
        [ReadConfig ''cfg.json''])"
    using t1 r1 p1 by blast
  moreover have "WebDriverFactory (host ''Linux'' ?doc) (Some ''opera'') False None (Some ''cfg.json'')
     = (Inl (PyTestFlowException
              ''Unsupported Browser: opera. Supported browsers are chrome,edge,firefox,safari''
              None),
        [ReadConfig ''cfg.json''])"
    using t2 r2 p2 b2 by blast
  moreover have "WebDriverFactory (host ''Linux'' no_files) (Some ''opera'') False None (Some ''cfg.json'')
     = (Inl x, tr)"
    using t3 r3 by blast
  moreover have "WebDriverFactory (host ''Linux'' ?doc) (Some ''safari'') False None (Some ''cfg.json'')
     = (fst (set_webdriver (host ''Linux'' ?doc) ?safari),
        [ReadConfig ''cfg.json''] @ snd (set_webdriver (host ''Linux'' ?doc) ?safari))"
    using t4 r4 p4 b4 by blast
  ultimately show ?thesis using r3 s4 by simp
qed

text \<open>
  Against the order that claim C2 states: on a Windows host with no file at the path,
  the platform check rejects Safari, yet the constructor has read the file first and
  raises the loader's error.
\<close>

theorem config_read_before_platform_check:
  "check_platform_compatibility (host ''Windows'' no_files) (new_factory (Some ''safari'') False None)
     = Inl (PyTestFlowException ''safari is not supported on Windows.'' None)
   \<and> WebDriverFactory (host ''Windows'' no_files) (Some ''safari'') False None (Some ''missing.json'')
     = (Inl (PyTestFlowException
              (''Test config data file path not found. Please verify the correct path location.''
               @ ''Path provided is: missing.json'')
              (Some (FileNotFoundError
                      (''[Errno 2] No such file or directory: '' @ quoted ''missing.json'')))),
        [ReadConfig ''missing.json''])"
  by (simp add: factory_defs host_defs)

section \<open>Safari on Windows\<close>

text \<open>
  Claim C3, as amended: on a Windows host, constructing the factory for \<^verbatim>\<open>safari\<close> always
  fails, and no service is started and no session is created (the only external call
  that can have been made is the reading of the configuration file). The failure is the
  unsupported-platform error whenever no configuration path is given or the
  configuration step raises nothing, whatever the resolved section contains; otherwise
  it is the error raised by the configuration step, and the constructor has done
  nothing but that step.
\<close>

theorem safari_on_windows_fails:
  assumes "platform_system e = ''Windows''"
  shows "(\<exists>x. fst (WebDriverFactory e (Some ''safari'') r g p) = Inl x)
         \<and> (\<forall>ev \<in> set (snd (WebDriverFactory e (Some ''safari'') r g p)). is_config_read ev)
         \<and> (\<not> truthy p \<or> \<not> isl (fst (resolve_config e (new_factory (Some ''safari'') r g) p)) \<longrightarrow>
              fst (WebDriverFactory e (Some ''safari'') r g p) =
                Inl (PyTestFlowException ''safari is not supported on Windows.'' None))
         \<and> (isl (fst (resolve_config e (new_factory (Some ''safari'') r g) p)) \<longrightarrow>
              WebDriverFactory e (Some ''safari'') r g p =
                resolve_config e (new_factory (Some ''safari'') r g) p)"
proof -
  obtain res tr where rc: "resolve_config e (new_factory (Some ''safari'') r g) p = (res, tr)"
    by (cases "resolve_config e (new_factory (Some ''safari'') r g) p")
  have ev: "\<forall>ev \<in> set tr. is_config_read ev"
    using resolve_config_events [of e "new_factory (Some ''safari'') r g" p] rc by simp
  show ?thesis
  proof (cases res)
    case (Inl x)
    then have "WebDriverFactory e (Some ''safari'') r g p = (Inl x, tr)"
      using rc by (simp add: WebDriverFactory_def)
    moreover have "truthy p"
      using rc Inl resolve_config_no_path [of p e "new_factory (Some ''safari'') r g"] by auto
    ultimately show ?thesis using ev rc Inl by simp
  next
    case (Inr f)
    then have "browser f = Some ''safari''"
      using resolve_config_fields [of e "new_factory (Some ''safari'') r g" p f tr] rc
      by (simp add: new_factory_def)
    then have "check_platform_compatibility e f =
        Inl (PyTestFlowException ''safari is not supported on Windows.'' None)"
      using assms by (simp add: check_platform_compatibility_def)
    then have "WebDriverFactory e (Some ''safari'') r g p =
        (Inl (PyTestFlowException ''safari is not supported on Windows.'' None), tr)"
      using rc Inr by (simp add: WebDriverFactory_def)
    then show ?thesis using ev rc Inr by simp
  qed
qed

text \<open>
  With a configuration file that resolves, with no configuration path, and with a
  path at which there is no file.
\<close>

theorem safari_on_windows_fails_witness:
  "platform_system (host ''Windows'' (one_file ''cfg.json'' example_document)) = ''Windows''
   \<and> fst (WebDriverFactory (host ''Windows'' (one_file ''cfg.json'' example_document))
        (Some ''safari'') False None (Some ''cfg.json''))
     = Inl (PyTestFlowException ''safari is not supported on Windows.'' None)
   \<and> fst (WebDriverFactory (host ''Windows'' no_files) (Some ''safari'') True
            (Some ''http://grid:4444'') None)
     = Inl (PyTestFlowException ''safari is not supported on Windows.'' None)
   \<and> WebDriverFactory (host ''Windows'' no_files) (Some ''safari'') False None
        (Some ''absent.json'')
     = (Inl (PyTestFlowException
              (''Test config data file path not found. Please verify the correct path location.''
               @ ''Path provided is: absent.json'')
              (Some (FileNotFoundError
                      (''[Errno 2] No such file or directory: '' @ quoted ''absent.json'')))),
        [ReadConfig ''absent.json''])"
proof -
  let ?doc = "one_file ''cfg.json'' example_document"
  have w1: "platform_system (host ''Windows'' ?doc) = ''Windows''"
    and w2: "platform_system (host ''Windows'' no_files) = ''Windows''"
    by (simp_all add: host_def)
  have ok: "\<not> isl (fst (resolve_config (host ''Windows'' ?doc)
                 (new_factory (Some ''safari'') False None) (Some ''cfg.json'')))"
    by (simp add: factory_defs host_defs)
  have np: "\<not> truthy None" by simp
  have ko: "resolve_config (host ''Windows'' no_files)
                 (new_factory (Some ''safari'') False None) (Some ''absent.json'')
     = (Inl (PyTestFlowException
              (''Test config data file path not found. Please verify the correct path location.''
               @ ''Path provided is: absent.json'')
              (Some (FileNotFoundError
                      (''[Errno 2] No such file or directory: '' @ quoted ''absent.json'')))),
        [ReadConfig ''absent.json''])"
    by (simp add: factory_defs host_defs)
  then have kl: "isl (fst (resolve_config (host ''Windows'' no_files)
                 (new_factory (Some ''safari'') False None) (Some ''absent.json'')))"
    by simp
  have "fst (WebDriverFactory (host ''Windows'' ?doc) (Some ''safari'') False None
               (Some ''cfg.json''))
     = Inl (PyTestFlowException ''safari is not supported on Windows.'' None)"
    using safari_on_windows_fails [OF w1, of False None "Some ''cfg.json''"] ok by blast
  moreover have "fst (WebDriverFactory (host ''Windows'' no_files) (Some ''safari'') True
            (Some ''http://grid:4444'') None)
     = Inl (PyTestFlowException ''safari is not supported on Windows.'' None)"
    using safari_on_windows_fails [OF w2, of True "Some ''http://grid:4444''" None] np by blast
  moreover have "WebDriverFactory (host ''Windows'' no_files) (Some ''safari'') False None
        (Some ''absent.json'')
     = resolve_config (host ''Windows'' no_files)
                 (new_factory (Some ''safari'') False None) (Some ''absent.json'')"
    using safari_on_windows_fails [OF w2, of False None "Some ''absent.json''"] kl by blast
  ultimately show ?thesis using w1 ko by simp
qed

text \<open>
  Against claim C3 as stated: when the content of the configuration file is not a JSON
  text, the constructor on a Windows host raises the loader's error for \<^verbatim>\<open>safari\<close>, after
  reading the file, and not the unsupported-platform error.
\<close>

theorem safari_on_windows_loader_error:
  "platform_system (host ''Windows'' (unparsable_file ''cfg.json'')) = ''Windows''
   \<and> WebDriverFactory (host ''Windows'' (unparsable_file ''cfg.json''))
        (Some ''safari'') False None (Some ''cfg.json'')
     = (Inl (PyTestFlowException
              (''Error in opening test config data file. Original Error: ''
               @ ''Expecting value: line 1 column 1 (char 0)'')
              (Some (OtherException ''Expecting value: line 1 column 1 (char 0)''))),
        [ReadConfig ''cfg.json''])
   \<and> fst (WebDriverFactory (host ''Windows'' (unparsable_file ''cfg.json''))
        (Some ''safari'') False None (Some ''cfg.json''))
     \<noteq> Inl (PyTestFlowException ''safari is not supported on Windows.'' None)"
  by (simp add: factory_defs host_defs)

section \<open>Unsupported browsers\<close>

text \<open>
  Claim C4, as amended: for a browser name outside \<^verbatim>\<open>chrome\<close>, \<^verbatim>\<open>edge\<close>, \<^verbatim>\<open>firefox\<close>,
  \<^verbatim>\<open>safari\<close> (or no name at all) the constructor always fails, so no factory and no
  session handle is produced, and no service is started and no session is created.
  The failure is the unsupported-browser error, whose message lists the four supported
  names, whenever no configuration path is given or the configuration step raises
  nothing; otherwise it is the error raised by the configuration step, and the
  constructor has done nothing but that step.
\<close>

theorem unsupported_browser_fails:
  assumes "b \<notin> set (map Some SUPPORTED_BROWSERS)"
  shows "(\<exists>x. fst (WebDriverFactory e b r g p) = Inl x)
         \<and> (\<forall>ev \<in> set (snd (WebDriverFactory e b r g p)). is_config_read ev)
         \<and> (\<not> truthy p \<or> \<not> isl (fst (resolve_config e (new_factory b r g) p)) \<longrightarrow>
              fst (WebDriverFactory e b r g p) =
                Inl (PyTestFlowException
                      (''Unsupported Browser: '' @ fmt b
                       @ ''. Supported browsers are chrome,edge,firefox,safari'') None))
         \<and> (isl (fst (resolve_config e (new_factory b r g) p)) \<longrightarrow>
              WebDriverFactory e b r g p = resolve_config e (new_factory b r g) p)"
proof -
  obtain res tr where rc: "resolve_config e (new_factory b r g) p = (res, tr)"
    by (cases "resolve_config e (new_factory b r g) p")
  have ev: "\<forall>ev \<in> set tr. is_config_read ev"
    using resolve_config_events [of e "new_factory b r g" p] rc by simp
  show ?thesis
  proof (cases res)
    case (Inl x)
    then have "WebDriverFactory e b r g p = (Inl x, tr)"
      using rc by (simp add: WebDriverFactory_def)
    moreover have "truthy p"
      using rc Inl resolve_config_no_path [of p e "new_factory b r g"] by auto
    ultimately show ?thesis using ev rc Inl by simp
  next
    case (Inr f)
    then have bf: "browser f = b"
      using resolve_config_fields [of e "new_factory b r g" p f tr] rc
      by (simp add: new_factory_def)
    then have pc: "check_platform_compatibility e f = Inr ()"
      using assms unfolding supported_iff by (simp add: check_platform_compatibility_def)
    have "check_browser_availability f =
        Inl (PyTestFlowException
              (''Unsupported Browser: '' @ fmt b
               @ ''. Supported browsers are chrome,edge,firefox,safari'') None)"
      using assms bf by (simp add: check_browser_availability_def join_supported)
    then have "WebDriverFactory e b r g p =
        (Inl (PyTestFlowException
              (''Unsupported Browser: '' @ fmt b
               @ ''. Supported browsers are chrome,edge,firefox,safari'') None), tr)"
      using rc Inr pc by (simp add: WebDriverFactory_def)
    then show ?thesis using ev rc Inr by simp
  qed
qed

text \<open>
  With a name outside the set and with no name, both without a configuration path, and
  with a configuration file that is not a JSON text.
\<close>

theorem unsupported_browser_fails_witness:
  "Some ''opera'' \<notin> set (map Some SUPPORTED_BROWSERS)
   \<and> fst (WebDriverFactory (host ''Linux'' no_files) (Some ''opera'') False None None)
     = Inl (PyTestFlowException
             ''Unsupported Browser: opera. Supported browsers are chrome,edge,firefox,safari''
             None)
   \<and> fst (WebDriverFactory (host ''Linux'' no_files) None False None None)
     = Inl (PyTestFlowException
             ''Unsupported Browser: None. Supported browsers are chrome,edge,firefox,safari''
             None)
   \<and> WebDriverFactory (host ''Linux'' (unparsable_file ''cfg.json'')) (Some ''opera'') False None
        (Some ''cfg.json'')
     = (Inl (PyTestFlowException
              (''Error in opening test config data file. Original Error: ''
               @ ''Expecting value: line 1 column 1 (char 0)'')
              (Some (OtherException ''Expecting value: line 1 column 1 (char 0)''))),
        [ReadConfig ''cfg.json''])"
proof -
  have n1: "Some ''opera'' \<notin> set (map Some SUPPORTED_BROWSERS)"
    and n2: "None \<notin> set (map Some SUPPORTED_BROWSERS)"
    by (simp_all add: SUPPORTED_BROWSERS_def)
  have np: "\<not> truthy None" by simp
  have ko: "resolve_config (host ''Linux'' (unparsable_file ''cfg.json''))
                 (new_factory (Some ''opera'') False None) (Some ''cfg.json'')
     = (Inl (PyTestFlowException
              (''Error in opening test config data file. Original Error: ''
               @ ''Expecting value: line 1 column 1 (char 0)'')
              (Some (OtherException ''Expecting value: line 1 column 1 (char 0)''))),
        [ReadConfig ''cfg.json''])"
    by (simp add: factory_defs host_defs)
  then have kl: "isl (fst (resolve_config (host ''Linux'' (unparsable_file ''cfg.json''))
                 (new_factory (Some ''opera'') False None) (Some ''cfg.json'')))"
    by simp
  have "fst (WebDriverFactory (host ''Linux'' no_files) (Some ''opera'') False None None)
     = Inl (PyTestFlowException
             (''Unsupported Browser: '' @ fmt (Some ''opera'')
              @ ''. Supported browsers are chrome,edge,firefox,safari'') None)"
    using unsupported_browser_fails [OF n1, of "host ''Linux'' no_files" False None None] np
    by blast
  moreover have "fst (WebDriverFactory (host ''Linux'' no_files) None False None None)
     = Inl (PyTestFlowException
             (''Unsupported Browser: '' @ fmt None
              @ ''. Supported browsers are chrome,edge,firefox,safari'') None)"
    using unsupported_browser_fails [OF n2, of "host ''Linux'' no_files" False None None] np
    by blast
  moreover have "WebDriverFactory (host ''Linux'' (unparsable_file ''cfg.json''))
        (Some ''opera'') False None (Some ''cfg.json'')
     = resolve_config (host ''Linux'' (unparsable_file ''cfg.json''))
                 (new_factory (Some ''opera'') False None) (Some ''cfg.json'')"
    using unsupported_browser_fails
            [OF n1, of "host ''Linux'' (unparsable_file ''cfg.json'')" False None
               "Some ''cfg.json''"] kl
    by blast
  ultimately show ?thesis using n1 ko by simp
qed

text \<open>
  Against claim C4 as stated: with a configuration path that does not resolve, an
  unsupported browser name gets the loader's error, whose message does not list the
  supported names.
\<close>

theorem unsupported_browser_config_error:
  "Some ''opera'' \<notin> set (map Some SUPPORTED_BROWSERS)
   \<and> WebDriverFactory (host ''Linux'' no_files) (Some ''opera'') False None (Some ''missing.json'')
     = (Inl (PyTestFlowException
              (''Test config data file path not found. Please verify the correct path location.''
               @ ''Path provided is: missing.json'')
              (Some (FileNotFoundError
                      (''[Errno 2] No such file or directory: '' @ quoted ''missing.json'')))),
        [ReadConfig ''missing.json''])"
  by (simp add: factory_defs host_defs)

section \<open>Lookup in the configuration\<close>

text \<open>
  Claim C5, as amended: for every loaded document whose \<^verbatim>\<open>browsers\<close> entry is a mapping
  and every non-empty browser name \<open>b\<close>, the lookup with that browser name (and any
  device argument) returns exactly the section filed under \<open>b\<close> when there is one, and
  an empty mapping when there is none.
\<close>

theorem get_config_data_browser:
  assumes "cfg_data c = JObj d" and "map_of d ''browsers'' = Some (JObj bs)" and "b \<noteq> []"
  shows "get_config_data c (Some b) device =
           Inr (case map_of bs b of Some sec \<Rightarrow> sec | None \<Rightarrow> JObj [])"
  using assms by (simp add: get_config_data_def split: option.splits)

theorem get_config_data_browser_witness:
  "get_config_data (loaded example_document) (Some ''chrome'') None = Inr example_section
   \<and> get_config_data (loaded example_document) (Some ''opera'') None = Inr (JObj [])"
proof -
  have d: "cfg_data (loaded example_document) =
      JObj [(''browsers'', JObj [(''chrome'', example_section), (''safari'', JObj [])]),
           (''devices'', JObj [(''pixel'', JObj [(''platformName'', JStr ''Android'')])])]"
    by (simp add: loaded_def example_document_def)
  have m: "map_of [(''browsers'', JObj [(''chrome'', example_section), (''safari'', JObj [])]),
           (''devices'', JObj [(''pixel'', JObj [(''platformName'', JStr ''Android'')])])] ''browsers''
         = Some (JObj [(''chrome'', example_section), (''safari'', JObj [])])"
    by simp
  have n1: "''chrome'' \<noteq> []" and n2: "''opera'' \<noteq> []" by simp_all
  show ?thesis
    using get_config_data_browser [OF d m n1, of None]
          get_config_data_browser [OF d m n2, of None] by simp
qed

text \<open>
  Against claim C5 as stated: the empty name is tested as "no browser given", so the
  section filed under it is not returned; and in a document without a \<^verbatim>\<open>browsers\<close>
  key a name that is absent gets \<^verbatim>\<open>AttributeError\<close>, not an empty mapping.
\<close>

theorem get_config_data_empty_browser_name:
  "get_config_data (loaded unnamed_document) (Some []) None = Inr JNull
   \<and> get_config_data (loaded unnamed_document) (Some []) None
       \<noteq> Inr (JObj [(''pageLoadStrategy'', JStr ''eager'')])
   \<and> get_config_data (loaded devices_only_document) (Some ''chrome'') None
       = Inl (AttributeError
               (quoted ''NoneType'' @ '' object has no attribute '' @ quoted ''get''))"
  by (simp add: get_config_data_def host_defs)

text \<open>
  Claim C6, as amended: for every loaded document, when a non-empty browser name and a
  device name are both supplied, the lookup does what it does for the browser name
  alone (the device is ignored), which is the browser's section when the document's
  \<^verbatim>\<open>browsers\<close> entry is a mapping; when neither is supplied, the lookup returns nothing.
\<close>

theorem get_config_data_browser_wins:
  assumes "b \<noteq> []"
  shows "get_config_data c (Some b) (Some dv) = get_config_data c (Some b) None
         \<and> (\<forall>d bs. cfg_data c = JObj d \<and> map_of d ''browsers'' = Some (JObj bs) \<longrightarrow>
               get_config_data c (Some b) (Some dv) =
                 Inr (case map_of bs b of Some sec \<Rightarrow> sec | None \<Rightarrow> JObj []))
         \<and> get_config_data c None None = Inr JNull"
  using assms by (simp add: get_config_data_def split: option.splits)

theorem get_config_data_browser_wins_witness:
  "''chrome'' \<noteq> []
   \<and> get_config_data (loaded example_document) (Some ''chrome'') (Some ''pixel'') = Inr example_section
   \<and> get_config_data (loaded example_document) None None = Inr JNull"
proof -
  have n: "''chrome'' \<noteq> []" by simp
  have d: "cfg_data (loaded example_document) =
      JObj [(''browsers'', JObj [(''chrome'', example_section), (''safari'', JObj [])]),
           (''devices'', JObj [(''pixel'', JObj [(''platformName'', JStr ''Android'')])])]"
    by (simp add: loaded_def example_document_def)
  have m: "map_of [(''browsers'', JObj [(''chrome'', example_section), (''safari'', JObj [])]),
           (''devices'', JObj [(''pixel'', JObj [(''platformName'', JStr ''Android'')])])] ''browsers''
         = Some (JObj [(''chrome'', example_section), (''safari'', JObj [])])"
    by simp
  from get_config_data_browser_wins [OF n, of "loaded example_document" "''pixel''"] d m
  have "get_config_data (loaded example_document) (Some ''chrome'') (Some ''pixel'') =
          Inr (case map_of [(''chrome'', example_section), (''safari'', JObj [])] ''chrome'' of
                 Some sec \<Rightarrow> sec | None \<Rightarrow> JObj [])"
    and "get_config_data (loaded example_document) None None = Inr JNull"
    by blast+
  then show ?thesis by simp
qed

text \<open>
  Against claim C6 as stated: with the empty browser name and the device name
  \<^verbatim>\<open>pixel\<close> both supplied, the device's section is returned, not the section filed under
  the browser name.
\<close>

theorem get_config_data_empty_browser_device_wins:
  "get_config_data (loaded unnamed_document) (Some []) (Some ''pixel'')
     = Inr (JObj [(''platformName'', JStr ''Android'')])
   \<and> get_config_data (loaded unnamed_document) (Some []) (Some ''pixel'')
     \<noteq> Inr (JObj [(''pageLoadStrategy'', JStr ''eager'')])"
  by (simp add: get_config_data_def host_defs)

text \<open>
  Claim C10, as amended: for every loaded document that lacks the top-level key
  \<^verbatim>\<open>browsers\<close>, the lookup with any non-empty browser name raises \<^verbatim>\<open>AttributeError\<close>
  instead of returning an empty mapping: the attribute \<^verbatim>\<open>get\<close> is looked up on \<^verbatim>\<open>None\<close>
  when the document is a mapping, and on the document itself when it is not.
  Symmetrically for the key \<^verbatim>\<open>devices\<close> and a non-empty device name, when no browser
  name (or the empty one) is given.
\<close>

theorem get_config_data_missing_section:
  "(cfg_data c = JObj d \<and> map_of d ''browsers'' = None \<and> b \<noteq> [] \<longrightarrow>
      get_config_data c (Some b) device = Inl (no_attribute JNull ''get''))
   \<and> ((\<forall>d'. cfg_data c \<noteq> JObj d') \<and> b \<noteq> [] \<longrightarrow>
      get_config_data c (Some b) device = Inl (no_attribute (cfg_data c) ''get''))
   \<and> (cfg_data c = JObj d \<and> map_of d ''devices'' = None \<and> dv \<noteq> [] \<and> \<not> truthy br \<longrightarrow>
      get_config_data c br (Some dv) = Inl (no_attribute JNull ''get''))
   \<and> ((\<forall>d'. cfg_data c \<noteq> JObj d') \<and> dv \<noteq> [] \<and> \<not> truthy br \<longrightarrow>
      get_config_data c br (Some dv) = Inl (no_attribute (cfg_data c) ''get''))"
  by (cases "cfg_data c") (simp_all add: get_config_data_def)

theorem get_config_data_missing_section_witness:
  "get_config_data (loaded devices_only_document) (Some ''chrome'') None
      = Inl (AttributeError (quoted ''NoneType'' @ '' object has no attribute '' @ quoted ''get''))
   \<and> get_config_data (loaded browsers_only_document) None (Some ''pixel'')
      = Inl (AttributeError (quoted ''NoneType'' @ '' object has no attribute '' @ quoted ''get''))
   \<and> get_config_data (loaded (JList [])) (Some ''chrome'') None
      = Inl (AttributeError (quoted ''list'' @ '' object has no attribute '' @ quoted ''get''))
   \<and> get_config_data (loaded (JList [])) None (Some ''pixel'')
      = Inl (AttributeError (quoted ''list'' @ '' object has no attribute '' @ quoted ''get''))"
proof -
  have d1: "cfg_data (loaded devices_only_document) =
      JObj [(''devices'', JObj [(''pixel'', JObj [(''platformName'', JStr ''Android'')])])]"
    by (simp add: loaded_def devices_only_document_def)
  have d2: "cfg_data (loaded browsers_only_document) =
      JObj [(''browsers'', JObj [(''chrome'', example_section)])]"
    by (simp add: loaded_def browsers_only_document_def)
  have d3: "cfg_data (loaded (JList [])) = JList []"
    by (simp add: loaded_def)
  show ?thesis
    using get_config_data_missing_section
            [of "loaded devices_only_document"
                "[(''devices'', JObj [(''pixel'', JObj [(''platformName'', JStr ''Android'')])])]"
                "''chrome''" None "''pixel''" None]
          get_config_data_missing_section
            [of "loaded browsers_only_document"
                "[(''browsers'', JObj [(''chrome'', example_section)])]"
                "''chrome''" None "''pixel''" None]
          get_config_data_missing_section
            [of "loaded (JList [])" "[]" "''chrome''" None "''pixel''" None]
          d1 d2 d3
    by (simp add: no_attribute_def)
qed

text \<open>
  Against claim C10 as stated: with the empty browser name (or the empty device name)
  the lookup in a document without the key raises nothing and returns \<^verbatim>\<open>None\<close>.
\<close>

theorem get_config_data_missing_section_empty_name:
  "get_config_data (loaded devices_only_document) (Some []) None = Inr JNull
   \<and> get_config_data (loaded browsers_only_document) None (Some []) = Inr JNull"
  by (simp add: get_config_data_def host_defs)

section \<open>Creation and termination of the session\<close>

text \<open>
  Claim C7: whenever the constructor succeeds, the browser is one of the four supported
  ones, the options were resolved, the service was started, and exactly one session
  was created: a remote session at the grid URL with the resolved options if the
  remote flag is set and the grid URL is a non-empty string, and otherwise a local
  session of the browser with the resolved options and the started service. The
  factory holds the handle that this one call returned.
\<close>

theorem exactly_one_session:
  assumes "WebDriverFactory e b r g p = (Inr f, tr)"
  shows "\<exists>bn opts s d. b = Some bn \<and> bn \<in> set SUPPORTED_BROWSERS
           \<and> get_options f = Inr (Some opts)
           \<and> start_service e bn = Inr s \<and> service f = Some s
           \<and> (if r \<and> truthy g then remote_session e g (Some opts)
               else local_session e bn (Some opts) (Some s)) = Inr d
           \<and> driver f = Some d
           \<and> filter is_session tr =
               [if r \<and> truthy g then RemoteSession g (Some opts)
                else LocalSession bn (Some opts) (Some s)]"
proof -
  obtain res0 tr1 where rc: "resolve_config e (new_factory b r g) p = (res0, tr1)"
    by (cases "resolve_config e (new_factory b r g) p")
  obtain f1 where f1: "res0 = Inr f1"
    using assms rc by (cases res0) (auto simp: WebDriverFactory_def)
  have fields: "browser f1 = b" "remote f1 = r" "grid_url f1 = g"
    using resolve_config_fields [of e "new_factory b r g" p f1 tr1] rc f1
    by (simp_all add: new_factory_def)
  have cb: "check_browser_availability f1 = Inr ()"
    using assms rc f1
    by (cases "check_browser_availability f1")
      (auto simp: WebDriverFactory_def split: sum.splits)
  then have "b \<in> set (map Some SUPPORTED_BROWSERS)"
    using fields by (auto simp: check_browser_availability_def split: if_splits)
  then obtain bn where bn: "b = Some bn" "bn \<in> set SUPPORTED_BROWSERS" by auto
  obtain tr2 where sw: "set_webdriver e f1 = (Inr f, tr2)" and tr: "tr = tr1 @ tr2"
    using assms rc f1 cb
    by (auto simp: WebDriverFactory_def split: sum.splits prod.splits)
  have "filter is_session tr1 = []"
  proof -
    have "\<forall>ev \<in> set tr1. is_config_read ev"
      using resolve_config_events [of e "new_factory b r g" p] rc by simp
    moreover have "\<And>ev. is_config_read ev \<Longrightarrow> \<not> is_session ev"
      by (case_tac ev) simp_all
    ultimately show ?thesis by (auto simp: filter_empty_conv)
  qed
  moreover from set_webdriver_ok [OF sw] fields bn obtain opts s d where
    "get_options f1 = Inr (Some opts)" "start_service e bn = Inr s"
    "f = f1\<lparr>service := Some s, driver := Some d\<rparr>"
    "(if r \<and> truthy g then remote_session e g (Some opts)
      else local_session e bn (Some opts) (Some s)) = Inr d"
    "tr2 = [StartService bn,
            if r \<and> truthy g then RemoteSession g (Some opts)
            else LocalSession bn (Some opts) (Some s)]"
    by auto
  ultimately show ?thesis using bn tr by auto
qed

text \<open>
  A local session from a configuration file, a remote session on a grid, and a local
  session when the remote flag is set but the grid URL is the empty string.
\<close>

theorem exactly_one_session_witness:
  "WebDriverFactory (host ''Linux'' (one_file ''cfg.json'' example_document))
       (Some ''chrome'') False None (Some ''cfg.json'')
     = (Inr \<lparr>browser = Some ''chrome'', remote = False, grid_url = None,
              driver = Some (Driver 1), service = Some (Service 1),
              config_data = example_section\<rparr>,
        [ReadConfig ''cfg.json'', StartService ''chrome'',
         LocalSession ''chrome''
           (Some \<lparr>kind = ''chrome'',
                   arguments = [JStr ''--headless'', JStr ''--no-sandbox''],
                   capabilities =
                     [(''args'', JList [JStr ''--headless'', JStr ''--no-sandbox'']),
                      (''pageLoadStrategy'', JStr ''eager'')]\<rparr>)
           (Some (Service 1))])
   \<and> filter is_session
        (snd (WebDriverFactory (host ''Linux'' no_files)
               (Some ''firefox'') True (Some ''http://grid:4444'') None))
     = [RemoteSession (Some ''http://grid:4444'')
          (Some \<lparr>kind = ''firefox'', arguments = [], capabilities = []\<rparr>)]
   \<and> filter is_session
        (snd (WebDriverFactory (host ''Linux'' no_files) (Some ''edge'') True (Some []) None))
     = [LocalSession ''edge'' (Some \<lparr>kind = ''edge'', arguments = [], capabilities = []\<rparr>)
          (Some (Service 1))]"
proof -
  let ?opts = "\<lparr>kind = ''chrome'',
                   arguments = [JStr ''--headless'', JStr ''--no-sandbox''],
                   capabilities =
                     [(''args'', JList [JStr ''--headless'', JStr ''--no-sandbox'']),
                      (''pageLoadStrategy'', JStr ''eager'')]\<rparr>"
  have h1: "WebDriverFactory (host ''Linux'' (one_file ''cfg.json'' example_document))
       (Some ''chrome'') False None (Some ''cfg.json'')
     = (Inr \<lparr>browser = Some ''chrome'', remote = False, grid_url = None,
              driver = Some (Driver 1), service = Some (Service 1),
              config_data = example_section\<rparr>,
        [ReadConfig ''cfg.json'', StartService ''chrome'',
         LocalSession ''chrome'' (Some ?opts) (Some (Service 1))])"
    by (simp add: factory_defs host_defs)
  have h2: "WebDriverFactory (host ''Linux'' no_files)
               (Some ''firefox'') True (Some ''http://grid:4444'') None
     = (Inr \<lparr>browser = Some ''firefox'', remote = True, grid_url = Some ''http://grid:4444'',
              driver = Some (Driver 2), service = Some (Service 1),
              config_data = JObj []\<rparr>,
        snd (WebDriverFactory (host ''Linux'' no_files)
               (Some ''firefox'') True (Some ''http://grid:4444'') None))"
    by (simp add: factory_defs host_defs)
  have h3: "WebDriverFactory (host ''Linux'' no_files) (Some ''edge'') True (Some []) None
     = (Inr \<lparr>browser = Some ''edge'', remote = True, grid_url = Some [],
              driver = Some (Driver 1), service = Some (Service 1),
              config_data = JObj []\<rparr>,
        snd (WebDriverFactory (host ''Linux'' no_files) (Some ''edge'') True (Some []) None))"
    by (simp add: factory_defs host_defs)
  have g2: "get_options \<lparr>browser = Some ''firefox'', remote = True,
              grid_url = Some ''http://grid:4444'',
              driver = Some (Driver 2), service = Some (Service 1),
              config_data = JObj []\<rparr>
            = Inr (Some \<lparr>kind = ''firefox'', arguments = [], capabilities = []\<rparr>)"
    by (simp add: get_options_def fresh_options_def)
  have g3: "get_options \<lparr>browser = Some ''edge'', remote = True, grid_url = Some [],
              driver = Some (Driver 1), service = Some (Service 1),
              config_data = JObj []\<rparr>
            = Inr (Some \<lparr>kind = ''edge'', arguments = [], capabilities = []\<rparr>)"
    by (simp add: get_options_def fresh_options_def)
  show ?thesis
    using exactly_one_session [OF h1] exactly_one_session [OF h2] exactly_one_session [OF h3]
      h1 g2 g3
    by (auto simp: host_def)
qed

text \<open>
  Claim C8: whenever the \<^verbatim>\<open>quit\<close> call on the stored handle raises, \<^verbatim>\<open>quit_webdriver\<close>
  fails with a \<^verbatim>\<open>PyTestFlowException\<close> whose message ends with the text of that
  exception and whose cause is that exception; on a factory that holds no handle the
  call is made on \<^verbatim>\<open>None\<close>, raises \<^verbatim>\<open>AttributeError\<close>, and is wrapped in the same way, so
  the operation fails there too.
\<close>

theorem quit_webdriver_wraps:
  "(\<forall>d x. driver f = Some d \<and> driver_quit e d = Some x \<longrightarrow>
      quit_webdriver e f =
        Inl (PyTestFlowException
              (''Error in closing WebDriver. Original Error: '' @ exc_str x) (Some x)))
   \<and> (driver f = None \<longrightarrow>
      quit_webdriver e f =
        Inl (PyTestFlowException
              (''Error in closing WebDriver. Original Error: ''
               @ quoted ''NoneType'' @ '' object has no attribute '' @ quoted ''quit'')
              (Some (no_attribute JNull ''quit''))))"
  by (simp add: quit_webdriver_def no_attribute_def)

theorem quit_webdriver_wraps_witness:
  "quit_webdriver ((host ''Linux'' no_files)
                     \<lparr>driver_quit := \<lambda>d. Some (WebDriverException ''invalid session id'')\<rparr>)
     ((new_factory (Some ''chrome'') False None)\<lparr>driver := Some (Driver 1)\<rparr>)
     = Inl (PyTestFlowException
             ''Error in closing WebDriver. Original Error: invalid session id''
             (Some (WebDriverException ''invalid session id'')))
   \<and> quit_webdriver (host ''Linux'' no_files) (new_factory (Some ''chrome'') False None)
     = Inl (PyTestFlowException
             (''Error in closing WebDriver. Original Error: ''
              @ quoted ''NoneType'' @ '' object has no attribute '' @ quoted ''quit'')
             (Some (AttributeError
                     (quoted ''NoneType'' @ '' object has no attribute '' @ quoted ''quit''))))"
proof -
  let ?e = "(host ''Linux'' no_files)
              \<lparr>driver_quit := \<lambda>d. Some (WebDriverException ''invalid session id'')\<rparr>"
  let ?f = "(new_factory (Some ''chrome'') False None)\<lparr>driver := Some (Driver 1)\<rparr>"
  have d1: "driver ?f = Some (Driver 1)"
    and q1: "driver_quit ?e (Driver 1) = Some (WebDriverException ''invalid session id'')"
    and d2: "driver (new_factory (Some ''chrome'') False None) = None"
    by (simp_all add: new_factory_def)
  show ?thesis
    using quit_webdriver_wraps [of ?f ?e]
      quit_webdriver_wraps [of "new_factory (Some ''chrome'') False None" "host ''Linux'' no_files"]
      d1 q1 d2
    by (simp add: no_attribute_def)
qed

section \<open>Assertions\<close>

text \<open>
  Claim C9: for every condition and message, \<^verbatim>\<open>hard_assert\<close> raises \<^verbatim>\<open>AssertionError\<close>
  with the message exactly when the condition is false and returns with no effect when
  it is true; \<^verbatim>\<open>soft_assert\<close> always returns, records a failure with the message
  exactly when the condition is false, and leaves the record as it was when the
  condition is true.
\<close>

theorem assertion_helpers:
  "(hard_assert condition msg = Inl (AssertionError msg)) = (\<not> condition)
   \<and> (hard_assert condition msg = Inr ()) = condition
   \<and> fst (soft_assert condition msg recorded) = Inr ()
   \<and> (snd (soft_assert condition msg recorded) = recorded @ [msg]) = (\<not> condition)
   \<and> (snd (soft_assert condition msg recorded) = recorded) = condition"
  by (simp add: hard_assert_def soft_assert_def check_is_true_def)

end
